theory Spec2Isabelle
  imports Main
begin

section \<open>JavaScript values of the relay (src/server/index.js)\<close>

text \<open>
  The handler of \<^verbatim>\<open>POST /translate\<close> reads fields of parsed JSON documents: the request
  body, the body of the generative-language provider and the bodies of the translation
  provider. A value is what \<^verbatim>\<open>JSON.parse\<close> yields, plus \<^verbatim>\<open>undefined\<close>, the result of
  reading a property that is not there.
  \<^item> A string is a list of code units below 256 (\<^typ>\<open>char\<close>).
  \<^item> A number is given by its rendering under \<^verbatim>\<open>ToString\<close> (\<^verbatim>\<open>"7"\<close>, \<^verbatim>\<open>"0.5"\<close>,
    \<^verbatim>\<open>"1e+21"\<close>), which determines a double up to the sign of zero. The handler does two
    things with a number, it tests it for falsiness and it converts it to a string, and both
    are read off the rendering: the falsy numbers are the two zeros, which render \<^verbatim>\<open>0\<close>, and
    \<^verbatim>\<open>NaN\<close>.
  \<^item> An object is the list of its own properties; a key is read with \<^const>\<open>map_of\<close>.
\<close>

datatype jsval =
    JUndefined
  | JNull
  | JBool bool
  | JNum string
  | JStr string
  | JArr "jsval list"
  | JObj "(string \<times> jsval) list"

text \<open>An \<^verbatim>\<open>Error\<close> object: its name and its \<^verbatim>\<open>message\<close>.\<close>

datatype js_error = JsError (error_name: string) (message: string)

definition TypeError :: "string \<Rightarrow> js_error" where
  "TypeError msg = JsError ''TypeError'' msg"

text \<open>Truthiness, as \<^verbatim>\<open>!x\<close>, \<^verbatim>\<open>x || y\<close> and \<^verbatim>\<open>x ? a : b\<close> test it.\<close>

fun truthy :: "jsval \<Rightarrow> bool" where
  "truthy JUndefined = False"
| "truthy JNull = False"
| "truthy (JBool b) = b"
| "truthy (JNum shown) = (shown \<noteq> ''0'' \<and> shown \<noteq> ''NaN'')"
| "truthy (JStr s) = (s \<noteq> [])"
| "truthy (JArr xs) = True"
| "truthy (JObj kvs) = True"

definition js_or :: "jsval \<Rightarrow> jsval \<Rightarrow> jsval" where
  "js_or a b = (if truthy a then a else b)"

fun nullish :: "jsval \<Rightarrow> bool" where
  "nullish JUndefined = True"
| "nullish JNull = True"
| "nullish v = False"

subsection \<open>Property reads\<close>

text \<open>
  \<^verbatim>\<open>v.name\<close> for the identifiers the source reads (\<^verbatim>\<open>candidates\<close>, \<^verbatim>\<open>responseData\<close>,
  \<^verbatim>\<open>responseDetails\<close>, \<^verbatim>\<open>responseMetadata\<close>): none of them is a member of a built-in
  prototype, so only an object's own property can answer; reading from \<^verbatim>\<open>null\<close> or
  \<^verbatim>\<open>undefined\<close> throws.
\<close>

fun get_field :: "jsval \<Rightarrow> string \<Rightarrow> js_error + jsval" where
  "get_field JUndefined name =
     Inl (TypeError (''Cannot read properties of undefined (reading '' @ CHR 0x27 # name @ CHR 0x27 # '')''))"
| "get_field JNull name =
     Inl (TypeError (''Cannot read properties of null (reading '' @ CHR 0x27 # name @ CHR 0x27 # '')''))"
| "get_field (JObj kvs) name = Inr (case map_of kvs name of None \<Rightarrow> JUndefined | Some v \<Rightarrow> v)"
| "get_field v name = Inr JUndefined"

text \<open>\<^verbatim>\<open>v?.name\<close>: \<^verbatim>\<open>undefined\<close> when \<^verbatim>\<open>v\<close> is nullish.\<close>

fun opt_get :: "jsval \<Rightarrow> string \<Rightarrow> jsval" where
  "opt_get (JObj kvs) name = (case map_of kvs name of None \<Rightarrow> JUndefined | Some v \<Rightarrow> v)"
| "opt_get v name = JUndefined"

text \<open>\<^verbatim>\<open>v?.[0]\<close>: the first element of an array, the first code unit of a string, the own
  property \<^verbatim>\<open>"0"\<close> of an object.\<close>

fun opt_index0 :: "jsval \<Rightarrow> jsval" where
  "opt_index0 (JArr (x # xs)) = x"
| "opt_index0 (JStr (c # cs)) = JStr [c]"
| "opt_index0 (JObj kvs) = (case map_of kvs ''0'' of None \<Rightarrow> JUndefined | Some v \<Rightarrow> v)"
| "opt_index0 v = JUndefined"

subsection \<open>Conversion to a string\<close>

text \<open>
  \<^verbatim>\<open>ToString\<close>, as a template literal, \<^verbatim>\<open>encodeURIComponent\<close> and a computed property
  key apply it. A number converts to its rendering. An array joins its elements with commas, \<^verbatim>\<open>null\<close> and \<^verbatim>\<open>undefined\<close>
  elements rendering empty. An object renders \<^verbatim>\<open>[object Object]\<close> through the inherited
  \<^verbatim>\<open>toString\<close>; an own property \<^verbatim>\<open>toString\<close> parsed from JSON is not callable and hides
  the inherited method, and then the conversion throws.
\<close>

fun to_string :: "jsval \<Rightarrow> js_error + string"
  and join_elements :: "jsval list \<Rightarrow> js_error + string" where
  "to_string JUndefined = Inr ''undefined''"
| "to_string JNull = Inr ''null''"
| "to_string (JBool b) = Inr (if b then ''true'' else ''false'')"
| "to_string (JNum shown) = Inr shown"
| "to_string (JStr s) = Inr s"
| "to_string (JArr xs) = join_elements xs"
| "to_string (JObj kvs) =
     (if map_of kvs ''toString'' = None then Inr ''[object Object]''
      else Inl (TypeError ''Cannot convert object to primitive value''))"
| "join_elements [] = Inr []"
| "join_elements (x # xs) =
     (case (if nullish x then Inr [] else to_string x) of
        Inl e \<Rightarrow> Inl e
      | Inr s \<Rightarrow>
          (if xs = [] then Inr s
           else (case join_elements xs of
                   Inl e \<Rightarrow> Inl e
                 | Inr r \<Rightarrow> Inr (s @ '','' @ r))))"

subsection \<open>String methods\<close>

text \<open>
  \<^verbatim>\<open>String.prototype.trim\<close> removes white space and line terminators from both ends; below
  256 these are the code units 9 to 13, 32 and 160.
\<close>

definition is_white_space :: "char \<Rightarrow> bool" where
  "is_white_space c = (c \<in> set [CHR 0x09, CHR 0x0A, CHR 0x0B, CHR 0x0C, CHR 0x0D, CHR 0x20, CHR 0xA0])"

definition trim :: "string \<Rightarrow> string" where
  "trim s = rev (dropWhile is_white_space (rev (dropWhile is_white_space s)))"

text \<open>
  \<^verbatim>\<open>refined.trim()\<close>: only a string has the method. A JSON object may own a property
  \<^verbatim>\<open>trim\<close>, which is never a function, so the call throws on every other value.
\<close>

fun call_trim :: "jsval \<Rightarrow> js_error + jsval" where
  "call_trim (JStr s) = Inr (JStr (trim s))"
| "call_trim JUndefined =
     Inl (TypeError (''Cannot read properties of undefined (reading '' @ CHR 0x27 # ''trim'' @ CHR 0x27 # '')''))"
| "call_trim JNull =
     Inl (TypeError (''Cannot read properties of null (reading '' @ CHR 0x27 # ''trim'' @ CHR 0x27 # '')''))"
| "call_trim v = Inl (TypeError ''refined.trim is not a function'')"

fun is_prefix :: "string \<Rightarrow> string \<Rightarrow> bool" where
  "is_prefix [] s = True"
| "is_prefix (p # ps) [] = False"
| "is_prefix (p # ps) (c # cs) = (p = c \<and> is_prefix ps cs)"

fun has_substring :: "string \<Rightarrow> string \<Rightarrow> bool" where
  "has_substring p [] = is_prefix p []"
| "has_substring p (c # cs) = (is_prefix p (c # cs) \<or> has_substring p cs)"

text \<open>
  Whether \<^verbatim>\<open>v?.match(/Language pair not supported/)\<close> is truthy: \<^verbatim>\<open>undefined\<close> on a
  nullish \<^verbatim>\<open>v\<close>, an array or \<^verbatim>\<open>null\<close> on a string, a \<^verbatim>\<open>TypeError\<close> on every other
  value, which has no method \<^verbatim>\<open>match\<close>.
\<close>

fun opt_match :: "jsval \<Rightarrow> js_error + bool" where
  "opt_match JUndefined = Inr False"
| "opt_match JNull = Inr False"
| "opt_match (JStr s) = Inr (has_substring ''Language pair not supported'' s)"
| "opt_match v = Inl (TypeError ''detectData.responseDetails?.match is not a function'')"

section \<open>The language table\<close>

text \<open>The object literal \<^verbatim>\<open>languages\<close> of the handler.\<close>

definition languages :: "(string \<times> string) list" where
  "languages =
     [(''Spanish'', ''es''), (''French'', ''fr''), (''Mandarin'', ''zh-CN''), (''German'', ''de''),
      (''Portuguese'', ''pt''), (''Italian'', ''it''), (''Japanese'', ''ja''), (''English'', ''en'')]"

text \<open>
  \<^verbatim>\<open>languages\<close> is an ordinary object, so a read \<^verbatim>\<open>languages[key]\<close> that finds no own
  property goes on to \<^verbatim>\<open>Object.prototype\<close>. Its members are eleven functions and the accessor
  \<^verbatim>\<open>__proto__\<close>, which yields the prototype object itself; all are truthy.
\<close>

definition object_prototype_members :: "string list" where
  "object_prototype_members =
     [''constructor'', ''__defineGetter__'', ''__defineSetter__'', ''hasOwnProperty'',
      ''__lookupGetter__'', ''__lookupSetter__'', ''isPrototypeOf'', ''propertyIsEnumerable'',
      ''toString'', ''valueOf'', ''__proto__'', ''toLocaleString'']"

text \<open>What a language variable of the handler holds: a JSON value, or a member of
  \<^verbatim>\<open>Object.prototype\<close> named by its property.\<close>

datatype lang_value = Val jsval | Inherited string

fun lang_truthy :: "lang_value \<Rightarrow> bool" where
  "lang_truthy (Val v) = truthy v"
| "lang_truthy (Inherited name) = True"

text \<open>A built-in function renders as its native source text; the function under
  \<^verbatim>\<open>constructor\<close> is named \<^verbatim>\<open>Object\<close>.\<close>

fun lang_to_string :: "lang_value \<Rightarrow> js_error + string" where
  "lang_to_string (Val v) = to_string v"
| "lang_to_string (Inherited name) =
     Inr (if name = ''__proto__'' then ''[object Object]''
          else ''function '' @ (if name = ''constructor'' then ''Object'' else name)
               @ ''() { [native code] }'')"

definition languages_get :: "string \<Rightarrow> lang_value" where
  "languages_get key =
     (case map_of languages key of
        Some code \<Rightarrow> Val (JStr code)
      | None \<Rightarrow> if key \<in> set object_prototype_members then Inherited key else Val JUndefined)"

text \<open>\<^verbatim>\<open>languages[x] || x\<close>; the key is \<^verbatim>\<open>x\<close> converted to a string.\<close>

definition resolve_language :: "jsval \<Rightarrow> js_error + lang_value" where
  "resolve_language x =
     (case to_string x of
        Inl e \<Rightarrow> Inl e
      | Inr key \<Rightarrow> Inr (let l = languages_get key in if lang_truthy l then l else Val x))"

section \<open>Configuration and providers\<close>

text \<open>The two environment variables the module reads at start-up; \<^const>\<open>None\<close> is an unset
  variable.\<close>

record process_env =
  env_GOOGLE_GEMINI_KEY :: "string option"
  env_AI_PROVIDER :: "string option"

definition GOOGLE_GEMINI_KEY :: "process_env \<Rightarrow> string option" where
  "GOOGLE_GEMINI_KEY pe = env_GOOGLE_GEMINI_KEY pe"

text \<open>\<^verbatim>\<open>process.env.AI_PROVIDER || "gemini"\<close>: the empty string is falsy too.\<close>

definition AI_PROVIDER :: "process_env \<Rightarrow> string" where
  "AI_PROVIDER pe =
     (case env_AI_PROVIDER pe of
        None \<Rightarrow> ''gemini''
      | Some s \<Rightarrow> if s = [] then ''gemini'' else s)"

text \<open>
  A provider call is a \<^verbatim>\<open>fetch\<close>: it rejects (a network error, or the abort that the
  ten-second timer of the refinement call sends) or resolves to a response, whose
  \<^verbatim>\<open>json()\<close> rejects on a body that is not JSON. A request is given by the parts of its URL
  and body that vary: the key and the prompt for the refinement provider, the query (before
  URL encoding) and the language pair for the translation provider. Every call is taken to
  settle; the detection and translation calls carry no timer, and a call that never answers
  is outside this model.
\<close>

record http_response =
  http_status :: nat
  json_body :: "js_error + jsval"

definition ok :: "http_response \<Rightarrow> bool" where
  "ok response = (200 \<le> http_status response \<and> http_status response < 300)"

datatype fetch_outcome = Rejects js_error | Resolves http_response

record gemini_request =
  api_key :: string
  prompt :: string

record mymemory_request =
  q :: string
  langpair :: string

text \<open>The outside world: what each of the three call sites gets back for the request it
  sends. Each site runs at most once per request to the relay.\<close>

record providers =
  gemini_fetch :: "gemini_request \<Rightarrow> fetch_outcome"
  detect_fetch :: "mymemory_request \<Rightarrow> fetch_outcome"
  translate_fetch :: "mymemory_request \<Rightarrow> fetch_outcome"

text \<open>What a run of the handler does that can be seen from outside, in order: the log line
  of \<^verbatim>\<open>refineOriginalText\<close> and the three provider calls.\<close>

datatype event =
    LogRefining string
  | GeminiFetch gemini_request
  | DetectFetch mymemory_request
  | TranslateFetch mymemory_request

record reply =
  status :: nat
  payload :: jsval

section \<open>The refinement adapter\<close>

definition prompt_head :: string where
  "prompt_head =
     ''You are a professional dental communication expert. Your job is to refine and polish messages for clarity and professionalism in a dental clinic context.''
     @ [CHR 0x0A, CHR 0x0A] @ ''IMPORTANT: Apply these refinements:''
     @ [CHR 0x0A] @ ''1. Fix capitalization (capitalize first word, proper nouns, '' @ [CHR 0x22] @ ''I'' @ [CHR 0x22] @ '')''
     @ [CHR 0x0A] @ ''2. Add proper punctuation (periods, commas, question marks, exclamation marks)''
     @ [CHR 0x0A] @ ''3. Improve grammar and natural flow''
     @ [CHR 0x0A] @ ''4. Keep the original meaning and intent''
     @ [CHR 0x0A] @ ''5. Make sentences clear and professional for a medical setting''
     @ [CHR 0x0A, CHR 0x0A] @ ''Original message in ''"

definition prompt_tail :: string where
  "prompt_tail =
     [CHR 0x0A, CHR 0x0A]
     @ ''Output ONLY the refined message. Do NOT include any explanation, quotes, or extra text. Just output the refined message exactly as it should be spoken or written.''"

text \<open>The template literal of the prompt converts \<^verbatim>\<open>language\<close>, then \<^verbatim>\<open>text\<close>.\<close>

definition gemini_prompt :: "jsval \<Rightarrow> jsval \<Rightarrow> js_error + string" where
  "gemini_prompt text language =
     (case to_string language of
        Inl e \<Rightarrow> Inl e
      | Inr l \<Rightarrow>
          (case to_string text of
             Inl e \<Rightarrow> Inl e
           | Inr t \<Rightarrow> Inr (prompt_head @ l @ '': '' @ [CHR 0x22] @ t @ [CHR 0x22] @ prompt_tail)))"

text \<open>\<^verbatim>\<open>data.candidates?.[0]?.content?.parts?.[0]?.text\<close>\<close>

definition candidate_text :: "jsval \<Rightarrow> js_error + jsval" where
  "candidate_text data =
     (case get_field data ''candidates'' of
        Inl e \<Rightarrow> Inl e
      | Inr c \<Rightarrow> Inr (opt_get (opt_index0 (opt_get (opt_get (opt_index0 c) ''content'') ''parts'')) ''text''))"

text \<open>
  The \<^verbatim>\<open>try\<close> block of \<^verbatim>\<open>refineWithGemini\<close>. On a response that is not \<^verbatim>\<open>ok\<close> the
  block reads the body as text for the log and returns \<^verbatim>\<open>text\<close>; were that read to
  reject, the \<^verbatim>\<open>catch\<close> would return \<^verbatim>\<open>text\<close> as well.
\<close>

definition gemini_try :: "providers \<Rightarrow> string \<Rightarrow> jsval \<Rightarrow> jsval \<Rightarrow> event list \<times> (js_error + jsval)" where
  "gemini_try pv key text language =
     (case gemini_prompt text language of
        Inl e \<Rightarrow> ([], Inl e)
      | Inr p \<Rightarrow>
          ([GeminiFetch \<lparr>api_key = key, prompt = p\<rparr>],
           (case gemini_fetch pv \<lparr>api_key = key, prompt = p\<rparr> of
              Rejects e \<Rightarrow> Inl e
            | Resolves response \<Rightarrow>
                if \<not> ok response then Inr text
                else (case json_body response of
                        Inl e \<Rightarrow> Inl e
                      | Inr data \<Rightarrow>
                          (case candidate_text data of
                             Inl e \<Rightarrow> Inl e
                           | Inr c \<Rightarrow> call_trim (js_or c text))))))"

definition refineWithGemini :: "process_env \<Rightarrow> providers \<Rightarrow> jsval \<Rightarrow> jsval \<Rightarrow> event list \<times> (js_error + jsval)" where
  "refineWithGemini pe pv text language =
     (case GOOGLE_GEMINI_KEY pe of
        None \<Rightarrow> ([], Inr text)
      | Some key \<Rightarrow>
          if key = [] then ([], Inr text)
          else (case gemini_try pv key text language of
                  (ev, Inl err) \<Rightarrow> (ev, Inr text)
                | (ev, Inr refined) \<Rightarrow> (ev, Inr refined)))"

definition refineOriginalText :: "process_env \<Rightarrow> providers \<Rightarrow> jsval \<Rightarrow> jsval \<Rightarrow> event list \<times> (js_error + jsval)" where
  "refineOriginalText pe pv text language =
     (if AI_PROVIDER pe = ''gemini''
      then (case refineWithGemini pe pv text language of
              (ev, r) \<Rightarrow> (LogRefining (AI_PROVIDER pe) # ev, r))
      else ([LogRefining (AI_PROVIDER pe)], Inr text))"

section \<open>The handler of POST /translate\<close>

text \<open>
  \<^verbatim>\<open>express.json()\<close> leaves an object in \<^verbatim>\<open>req.body\<close> on every request (the empty object
  when it parsed nothing; an array body has none of the four properties the handler reads).
  The body is the list of that object's own properties.
\<close>

type_synonym request_body = "(string \<times> jsval) list"

definition body_field :: "request_body \<Rightarrow> string \<Rightarrow> jsval" where
  "body_field body name = (case map_of body name of None \<Rightarrow> JUndefined | Some v \<Rightarrow> v)"

text \<open>\<^verbatim>\<open>req.body.refine !== false\<close>\<close>

definition refineRequested :: "request_body \<Rightarrow> bool" where
  "refineRequested body = (body_field body ''refine'' \<noteq> JBool False)"

definition bad_request :: reply where
  "bad_request = \<lparr>status = 400, payload = JObj [(''error'', JStr ''Missing text or target'')]\<rparr>"

definition server_error :: "js_error \<Rightarrow> reply" where
  "server_error err =
     \<lparr>status = 500, payload = JObj [(''error'', JStr (''Translation failed: '' @ message err))]\<rparr>"

text \<open>The refinement block: \<^verbatim>\<open>refinedText\<close> after it, and what it did.\<close>

definition refine_step :: "process_env \<Rightarrow> providers \<Rightarrow> request_body \<Rightarrow> jsval \<Rightarrow> jsval \<Rightarrow> event list \<times> jsval" where
  "refine_step pe pv body text source =
     (if AI_PROVIDER pe \<noteq> ''none'' \<and> refineRequested body
      then (case refineOriginalText pe pv text (js_or source (JStr ''English'')) of
              (ev, Inl refineErr) \<Rightarrow> (ev, text)
            | (ev, Inr refined) \<Rightarrow> (ev, refined))
      else ([], text))"

text \<open>
  \<^verbatim>\<open>detectData.responseDetails?.match(/Language pair not supported/) ? "en" :
  detectData.responseMetadata?.detectedLanguage || "en"\<close>
\<close>

definition detected_language :: "jsval \<Rightarrow> js_error + jsval" where
  "detected_language detectData =
     (case get_field detectData ''responseDetails'' of
        Inl e \<Rightarrow> Inl e
      | Inr details \<Rightarrow>
          (case opt_match details of
             Inl e \<Rightarrow> Inl e
           | Inr unsupported \<Rightarrow>
               if unsupported then Inr (JStr ''en'')
               else (case get_field detectData ''responseMetadata'' of
                       Inl e \<Rightarrow> Inl e
                     | Inr metadata \<Rightarrow> Inr (js_or (opt_get metadata ''detectedLanguage'') (JStr ''en'')))))"

text \<open>The detection branch: the probe with the pair \<^verbatim>\<open>en|en\<close>, then the log line, which
  converts the detected code to a string.\<close>

definition detect_source :: "providers \<Rightarrow> jsval \<Rightarrow> event list \<times> (js_error + lang_value)" where
  "detect_source pv refinedText =
     (case to_string refinedText of
        Inl e \<Rightarrow> ([], Inl e)
      | Inr qs \<Rightarrow>
          ([DetectFetch \<lparr>q = qs, langpair = ''en|en''\<rparr>],
           (case detect_fetch pv \<lparr>q = qs, langpair = ''en|en''\<rparr> of
              Rejects e \<Rightarrow> Inl e
            | Resolves detectResponse \<Rightarrow>
                (case json_body detectResponse of
                   Inl e \<Rightarrow> Inl e
                 | Inr detectData \<Rightarrow>
                     (case detected_language detectData of
                        Inl e \<Rightarrow> Inl e
                      | Inr code \<Rightarrow>
                          (case to_string code of
                             Inl e \<Rightarrow> Inl e
                           | Inr shown \<Rightarrow> Inr (Val code)))))))"

text \<open>\<^verbatim>\<open>source ? (languages[source] || source) : null\<close>, then the detection branch when that
  is falsy and the log line of the other branch when it is not.\<close>

definition source_language :: "providers \<Rightarrow> jsval \<Rightarrow> jsval \<Rightarrow> event list \<times> (js_error + lang_value)" where
  "source_language pv source refinedText =
     (case (if truthy source then resolve_language source else Inr (Val JNull)) of
        Inl e \<Rightarrow> ([], Inl e)
      | Inr sourceLangCode \<Rightarrow>
          if \<not> lang_truthy sourceLangCode then detect_source pv refinedText
          else (case to_string source of
                  Inl e \<Rightarrow> ([], Inl e)
                | Inr shown \<Rightarrow>
                    (case lang_to_string sourceLangCode of
                       Inl e \<Rightarrow> ([], Inl e)
                     | Inr shown' \<Rightarrow> ([], Inr sourceLangCode))))"

text \<open>The translation call and the reply built from its body.\<close>

definition translation_of :: "jsval \<Rightarrow> js_error + jsval" where
  "translation_of data =
     (case get_field data ''responseData'' of
        Inl e \<Rightarrow> Inl e
      | Inr responseData \<Rightarrow> Inr (js_or (opt_get responseData ''translatedText'') (JStr ''Error: no translation'')))"

definition translate_call :: "providers \<Rightarrow> jsval \<Rightarrow> lang_value \<Rightarrow> lang_value \<Rightarrow> event list \<times> (js_error + reply)" where
  "translate_call pv refinedText sourceLangCode targetLang =
     (case to_string refinedText of
        Inl e \<Rightarrow> ([], Inl e)
      | Inr qs \<Rightarrow>
          (case lang_to_string sourceLangCode of
             Inl e \<Rightarrow> ([], Inl e)
           | Inr s \<Rightarrow>
               (case lang_to_string targetLang of
                  Inl e \<Rightarrow> ([], Inl e)
                | Inr t \<Rightarrow>
                    ([TranslateFetch \<lparr>q = qs, langpair = s @ ''|'' @ t\<rparr>],
                     (case translate_fetch pv \<lparr>q = qs, langpair = s @ ''|'' @ t\<rparr> of
                        Rejects e \<Rightarrow> Inl e
                      | Resolves translationResponse \<Rightarrow>
                          (case json_body translationResponse of
                             Inl e \<Rightarrow> Inl e
                           | Inr data \<Rightarrow>
                               (case translation_of data of
                                  Inl e \<Rightarrow> Inl e
                                | Inr translation \<Rightarrow>
                                    Inr \<lparr>status = 200, payload = JObj [(''translation'', translation)]\<rparr>)))))))"

text \<open>Everything after the refinement block: the two language variables, then the
  translation.\<close>

definition resolve_and_translate :: "providers \<Rightarrow> jsval \<Rightarrow> jsval \<Rightarrow> jsval \<Rightarrow> event list \<times> (js_error + reply)" where
  "resolve_and_translate pv refinedText target source =
     (case resolve_language target of
        Inl e \<Rightarrow> ([], Inl e)
      | Inr targetLang \<Rightarrow>
          (case source_language pv source refinedText of
             (ev, Inl e) \<Rightarrow> (ev, Inl e)
           | (ev, Inr sourceLangCode) \<Rightarrow>
               (case translate_call pv refinedText sourceLangCode targetLang of
                  (ev', r) \<Rightarrow> (ev @ ev', r))))"

text \<open>The body of the handler's \<^verbatim>\<open>try\<close>: validation, the log line that converts
  \<^verbatim>\<open>text\<close> and \<^verbatim>\<open>target\<close> to strings, refinement, and the rest.\<close>

definition translate_try :: "process_env \<Rightarrow> providers \<Rightarrow> request_body \<Rightarrow> event list \<times> (js_error + reply)" where
  "translate_try pe pv body =
     (let text = body_field body ''text'';
          target = body_field body ''target'';
          source = body_field body ''source''
      in if \<not> truthy text \<or> \<not> truthy target then ([], Inr bad_request)
         else (case to_string text of
                 Inl e \<Rightarrow> ([], Inl e)
               | Inr shown \<Rightarrow>
                   (case to_string target of
                      Inl e \<Rightarrow> ([], Inl e)
                    | Inr shown' \<Rightarrow>
                        (case refine_step pe pv body text source of
                           (ev, refinedText) \<Rightarrow>
                             (case resolve_and_translate pv refinedText target source of
                                (ev', r) \<Rightarrow> (ev @ ev', r))))))"

definition translate_handler :: "process_env \<Rightarrow> providers \<Rightarrow> request_body \<Rightarrow> event list \<times> reply" where
  "translate_handler pe pv body =
     (case translate_try pe pv body of
        (ev, Inl err) \<Rightarrow> (ev, server_error err)
      | (ev, Inr r) \<Rightarrow> (ev, r))"

section \<open>Vocabulary of the properties\<close>

text \<open>The events of the refinement block, as opposed to the calls to the translation
  provider.\<close>

fun is_refinement_event :: "event \<Rightarrow> bool" where
  "is_refinement_event (LogRefining p) = True"
| "is_refinement_event (GeminiFetch r) = True"
| "is_refinement_event e = False"

text \<open>A concrete configuration and concrete providers, for the instances below.\<close>

definition demo_env :: process_env where
  "demo_env = \<lparr>env_GOOGLE_GEMINI_KEY = Some ''secret'', env_AI_PROVIDER = None\<rparr>"

definition json_response :: "jsval \<Rightarrow> fetch_outcome" where
  "json_response data = Resolves \<lparr>http_status = 200, json_body = Inr data\<rparr>"

definition demo_providers :: providers where
  "demo_providers =
     \<lparr>gemini_fetch = (\<lambda>r. json_response (JObj [])),
      detect_fetch = (\<lambda>r. json_response (JObj [])),
      translate_fetch = (\<lambda>r. json_response (JObj [(''responseData'', JObj [(''translatedText'', JStr ''hello'')])]))\<rparr>"

definition keyless_env :: process_env where
  "keyless_env = \<lparr>env_GOOGLE_GEMINI_KEY = None, env_AI_PROVIDER = Some ''gemini''\<rparr>"

definition fieldless_providers :: providers where
  "fieldless_providers =
     \<lparr>gemini_fetch = (\<lambda>r. Rejects (JsError ''AbortError'' ''The user aborted a request.'')),
      detect_fetch = (\<lambda>r. json_response (JObj [])),
      translate_fetch = (\<lambda>r. json_response (JObj [(''responseStatus'', JNum ''403'')]))\<rparr>"

text \<open>A refinement call that fails: the fetch rejects (an exception, or the abort of the
  timer), the status is not a success, or the body is not JSON.\<close>

fun refinement_fails :: "fetch_outcome \<Rightarrow> bool" where
  "refinement_fails (Rejects e) = True"
| "refinement_fails (Resolves response) = (\<not> ok response \<or> isl (json_body response))"

definition failing_providers :: providers where
  "failing_providers =
     \<lparr>gemini_fetch = (\<lambda>r. Resolves \<lparr>http_status = 503, json_body = Inr (JObj [])\<rparr>),
      detect_fetch = (\<lambda>r. json_response (JObj [])),
      translate_fetch = (\<lambda>r. json_response (JObj [(''responseData'', JObj [(''translatedText'', JStr ''hello'')])]))\<rparr>"

definition undetected_providers :: providers where
  "undetected_providers =
     \<lparr>gemini_fetch = (\<lambda>r. json_response (JObj [])),
      detect_fetch = (\<lambda>r. json_response (JObj [(''responseMetadata'', JObj [(''detectedLanguage'', JStr [])])])),
      translate_fetch = (\<lambda>r. json_response (JObj [(''responseData'', JObj [(''translatedText'', JStr ''hello'')])]))\<rparr>"

definition detecting_providers :: providers where
  "detecting_providers =
     \<lparr>gemini_fetch = (\<lambda>r. json_response (JObj [])),
      detect_fetch = (\<lambda>r. json_response (JObj [(''responseMetadata'', JObj [(''detectedLanguage'', JStr ''es'')])])),
      translate_fetch = (\<lambda>r. json_response (JObj [(''responseData'', JObj [(''translatedText'', JStr ''hello'')])]))\<rparr>"


definition null_body_providers :: providers where
  "null_body_providers =
     \<lparr>gemini_fetch = (\<lambda>r. json_response JNull),
      detect_fetch = (\<lambda>r. json_response JNull),
      translate_fetch = (\<lambda>r. json_response JNull)\<rparr>"

definition numeric_details_providers :: providers where
  "numeric_details_providers =
     \<lparr>gemini_fetch = (\<lambda>r. json_response (JObj [])),
      detect_fetch = (\<lambda>r. json_response (JObj [(''responseDetails'', JNum ''5'')])),
      translate_fetch = (\<lambda>r. json_response (JObj [(''responseData'', JObj [(''translatedText'', JStr ''hello'')])]))\<rparr>"

section \<open>How a run unfolds\<close>

lemma gemini_try_events:
  "gemini_try pv key text language = (ev, r) \<Longrightarrow> e \<in> set ev \<Longrightarrow> is_refinement_event e"
  by (auto simp: gemini_try_def split: sum.splits)

lemma refineWithGemini_events:
  "refineWithGemini pe pv text language = (ev, r) \<Longrightarrow> e \<in> set ev \<Longrightarrow> is_refinement_event e"
  by (auto simp: refineWithGemini_def dest: gemini_try_events
           split: option.splits if_splits prod.splits sum.splits)

lemma refineWithGemini_resolves:
  "\<exists>v. snd (refineWithGemini pe pv text language) = Inr v"
  by (auto simp: refineWithGemini_def split: option.splits if_splits prod.splits sum.splits)

lemma refineOriginalText_events:
  "refineOriginalText pe pv text language = (ev, r) \<Longrightarrow> e \<in> set ev \<Longrightarrow> is_refinement_event e"
  by (auto simp: refineOriginalText_def dest: refineWithGemini_events split: if_splits prod.splits)

lemma refine_step_events:
  "refine_step pe pv body text source = (ev, r) \<Longrightarrow> e \<in> set ev \<Longrightarrow> is_refinement_event e"
  by (auto simp: refine_step_def dest: refineOriginalText_events split: if_splits prod.splits sum.splits)

lemma detect_source_events:
  "detect_source pv refinedText = (ev, r) \<Longrightarrow> e \<in> set ev \<Longrightarrow>
     \<exists>qs. to_string refinedText = Inr qs \<and> e = DetectFetch \<lparr>q = qs, langpair = ''en|en''\<rparr>"
  by (auto simp: detect_source_def split: sum.splits)

lemma source_language_events:
  "source_language pv source refinedText = (ev, r) \<Longrightarrow> e \<in> set ev \<Longrightarrow>
     \<exists>qs. to_string refinedText = Inr qs \<and> e = DetectFetch \<lparr>q = qs, langpair = ''en|en''\<rparr>"
  by (auto simp: source_language_def dest: detect_source_events split: sum.splits if_splits)

lemma translate_call_events:
  "translate_call pv refinedText s t = (ev, r) \<Longrightarrow> e \<in> set ev \<Longrightarrow>
     \<exists>qs. to_string refinedText = Inr qs \<and> (\<exists>lp. e = TranslateFetch \<lparr>q = qs, langpair = lp\<rparr>)"
  by (auto simp: translate_call_def split: sum.splits)

lemma resolve_and_translate_events:
  "resolve_and_translate pv refinedText target source = (ev, r) \<Longrightarrow> e \<in> set ev \<Longrightarrow>
     \<exists>qs. to_string refinedText = Inr qs \<and>
       (e = DetectFetch \<lparr>q = qs, langpair = ''en|en''\<rparr> \<or> (\<exists>lp. e = TranslateFetch \<lparr>q = qs, langpair = lp\<rparr>))"
proof -
  assume run: "resolve_and_translate pv refinedText target source = (ev, r)" and e: "e \<in> set ev"
  show ?thesis
  proof (cases "resolve_language target")
    case (Inl err)
    with run e show ?thesis by (simp add: resolve_and_translate_def)
  next
    case (Inr targetLang)
    obtain ev1 r1 where src: "source_language pv source refinedText = (ev1, r1)"
      by (cases "source_language pv source refinedText")
    show ?thesis
    proof (cases r1)
      case (Inl err)
      with run Inr src have "ev = ev1" by (simp add: resolve_and_translate_def)
      with e src show ?thesis by (blast dest: source_language_events)
    next
      case code: (Inr code)
      obtain ev2 r2 where tr: "translate_call pv refinedText code targetLang = (ev2, r2)"
        by (cases "translate_call pv refinedText code targetLang")
      with run Inr src code have "ev = ev1 @ ev2" by (simp add: resolve_and_translate_def)
      with e have "e \<in> set ev1 \<or> e \<in> set ev2" by simp
      with src tr show ?thesis by (blast dest: source_language_events translate_call_events)
    qed
  qed
qed


lemma handler_rejects:
  "\<not> truthy (body_field body ''text'') \<or> \<not> truthy (body_field body ''target'') \<Longrightarrow>
     translate_handler pe pv body = ([], bad_request)"
  by (auto simp: translate_handler_def translate_try_def)

lemma handler_accepts:
  assumes "truthy (body_field body ''text'')" "truthy (body_field body ''target'')"
    and "to_string (body_field body ''text'') = Inr a" "to_string (body_field body ''target'') = Inr b"
    and "refine_step pe pv body (body_field body ''text'') (body_field body ''source'') = (ev, refinedText)"
    and "resolve_and_translate pv refinedText (body_field body ''target'') (body_field body ''source'') = (ev', r)"
  shows "translate_handler pe pv body = (ev @ ev', case r of Inl err \<Rightarrow> server_error err | Inr x \<Rightarrow> x)"
  using assms by (simp add: translate_handler_def translate_try_def split: sum.splits)

text \<open>
  Claim C2. A request whose body has no \<^verbatim>\<open>text\<close> property, or no \<^verbatim>\<open>target\<close> property,
  is answered with status 400 and the error body, and the run makes no provider call: its
  list of events is empty.
\<close>

theorem missing_field_rejected:
  assumes "map_of body ''text'' = None \<or> map_of body ''target'' = None"
  shows "translate_handler pe pv body =
           ([], \<lparr>status = 400, payload = JObj [(''error'', JStr ''Missing text or target'')]\<rparr>)"
proof -
  from assms have "\<not> truthy (body_field body ''text'') \<or> \<not> truthy (body_field body ''target'')"
    by (auto simp: body_field_def)
  then show ?thesis by (simp add: handler_rejects bad_request_def)
qed

theorem missing_field_rejected_witness:
  "map_of [(''target'', JStr ''Spanish'')] ''text'' = None \<and>
   translate_handler demo_env demo_providers [(''target'', JStr ''Spanish'')] =
     ([], \<lparr>status = 400, payload = JObj [(''error'', JStr ''Missing text or target'')]\<rparr>)"
  using missing_field_rejected [of "[(''target'', JStr ''Spanish'')]" demo_env demo_providers]
  by simp

lemma translate_call_status:
  "translate_call pv refinedText s t = (ev, Inr r) \<Longrightarrow> status r = 200"
  by (auto simp: translate_call_def split: sum.splits fetch_outcome.splits)

lemma resolve_and_translate_status:
  "resolve_and_translate pv refinedText target source = (ev, Inr r) \<Longrightarrow> status r = 200"
  by (auto simp: resolve_and_translate_def dest: translate_call_status split: sum.splits prod.splits)

lemma translate_try_status:
  "translate_try pe pv body = (ev, Inr r) \<Longrightarrow>
     truthy (body_field body ''text'') \<Longrightarrow> truthy (body_field body ''target'') \<Longrightarrow> status r = 200"
  by (auto simp: translate_try_def Let_def dest: resolve_and_translate_status split: sum.splits prod.splits)

text \<open>
  Claim C9. Validation tests falsiness. A request whose \<^verbatim>\<open>text\<close> or \<^verbatim>\<open>target\<close> is
  falsy (absent, \<^verbatim>\<open>null\<close>, \<^verbatim>\<open>false\<close>, zero, the empty string) gets the reply of the request
  with no fields at all, which is the 400 reply, and no provider is called. Conversely the
  handler answers 400 only when one of the two is falsy.
\<close>

theorem falsy_field_rejected:
  "(\<not> truthy (body_field body ''text'') \<or> \<not> truthy (body_field body ''target'') \<longrightarrow>
      translate_handler pe pv body = ([], bad_request) \<and>
      translate_handler pe pv body = translate_handler pe pv []) \<and>
   (status (snd (translate_handler pe pv body)) = 400 \<longrightarrow>
      \<not> truthy (body_field body ''text'') \<or> \<not> truthy (body_field body ''target''))"
proof (intro conjI impI)
  assume f: "\<not> truthy (body_field body ''text'') \<or> \<not> truthy (body_field body ''target'')"
  then show "translate_handler pe pv body = ([], bad_request)" by (rule handler_rejects)
  have "translate_handler pe pv [] = ([], bad_request)"
    by (rule handler_rejects) (simp add: body_field_def)
  with f show "translate_handler pe pv body = translate_handler pe pv []"
    by (simp add: handler_rejects)
next
  assume s: "status (snd (translate_handler pe pv body)) = 400"
  show "\<not> truthy (body_field body ''text'') \<or> \<not> truthy (body_field body ''target'')"
  proof (rule ccontr)
    assume "\<not> ?thesis"
    then have t: "truthy (body_field body ''text'')" "truthy (body_field body ''target'')" by auto
    obtain ev r where run: "translate_try pe pv body = (ev, r)" by (cases "translate_try pe pv body")
    show False
    proof (cases r)
      case (Inl err)
      with run s show False by (simp add: translate_handler_def server_error_def)
    next
      case (Inr x)
      with run t have "status x = 200" by (auto dest: translate_try_status)
      with run Inr s show False by (simp add: translate_handler_def)
    qed
  qed
qed

theorem falsy_field_rejected_witness:
  "translate_handler demo_env demo_providers [(''text'', JStr []), (''target'', JStr ''Spanish'')] = ([], bad_request) \<and>
   translate_handler demo_env demo_providers [(''text'', JStr ''hola''), (''target'', JNum ''0'')] = ([], bad_request) \<and>
   status (snd (translate_handler demo_env demo_providers [(''text'', JStr ''hola''), (''target'', JStr ''English''), (''source'', JStr ''Spanish'')])) \<noteq> 400"
  using falsy_field_rejected [of "[(''text'', JStr []), (''target'', JStr ''Spanish'')]" demo_env demo_providers]
        falsy_field_rejected [of "[(''text'', JStr ''hola''), (''target'', JNum ''0'')]" demo_env demo_providers]
        falsy_field_rejected [of "[(''text'', JStr ''hola''), (''target'', JStr ''English''), (''source'', JStr ''Spanish'')]" demo_env demo_providers]
  by (simp add: body_field_def)

lemma translate_handler_events:
  "fst (translate_handler pe pv body) = fst (translate_try pe pv body)"
  by (simp add: translate_handler_def split: prod.splits sum.splits)

lemma translate_try_events:
  assumes "e \<in> set (fst (translate_try pe pv body))"
  obtains (refine) ev rt where
      "refine_step pe pv body (body_field body ''text'') (body_field body ''source'') = (ev, rt)" "e \<in> set ev"
    | (rest) ev rt ev' r where
      "refine_step pe pv body (body_field body ''text'') (body_field body ''source'') = (ev, rt)"
      "resolve_and_translate pv rt (body_field body ''target'') (body_field body ''source'') = (ev', r)"
      "e \<in> set ev'"
  using assms
  by (auto simp: translate_try_def Let_def split: if_splits sum.splits prod.splits)

lemma keyless_no_fetch:
  assumes "GOOGLE_GEMINI_KEY pe = None \<or> GOOGLE_GEMINI_KEY pe = Some []"
  shows "refineWithGemini pe pv text language = ([], Inr text)"
  using assms by (auto simp: refineWithGemini_def)

lemma keyless_refine_step:
  assumes "GOOGLE_GEMINI_KEY pe = None \<or> GOOGLE_GEMINI_KEY pe = Some []"
    and "refine_step pe pv body text source = (ev, rt)" "e \<in> set ev"
  shows "\<exists>p. e = LogRefining p"
  using assms
  by (auto simp: refine_step_def refineOriginalText_def keyless_no_fetch split: if_splits)

text \<open>
  Claim C8. With no credential configured (the variable unset, or set to the empty string)
  the refinement adapter returns its input text unchanged and calls nothing, whatever the
  text and the language; and no run of the handler, whatever the body and its
  \<^verbatim>\<open>refine\<close> flag, calls the refinement provider.
\<close>

theorem no_credential_no_refinement:
  assumes "GOOGLE_GEMINI_KEY pe = None \<or> GOOGLE_GEMINI_KEY pe = Some []"
  shows "refineWithGemini pe pv text language = ([], Inr text) \<and>
         (\<forall>r. GeminiFetch r \<notin> set (fst (translate_handler pe pv body)))"
proof
  show "refineWithGemini pe pv text language = ([], Inr text)"
    using assms by (rule keyless_no_fetch)
  show "\<forall>r. GeminiFetch r \<notin> set (fst (translate_handler pe pv body))"
  proof (intro allI notI)
    fix r assume "GeminiFetch r \<in> set (fst (translate_handler pe pv body))"
    then have "GeminiFetch r \<in> set (fst (translate_try pe pv body))"
      by (simp add: translate_handler_events)
    then show False
    proof (cases rule: translate_try_events)
      case (refine ev rt)
      from keyless_refine_step [OF assms refine] show False by simp
    next
      case (rest ev rt ev' r')
      from resolve_and_translate_events [OF rest(2,3)] show False by simp
    qed
  qed
qed

theorem no_credential_no_refinement_witness:
  "GOOGLE_GEMINI_KEY keyless_env = None \<and>
   refineWithGemini keyless_env demo_providers (JStr ''hola '') (JStr ''Spanish'') = ([], Inr (JStr ''hola '')) \<and>
   GeminiFetch \<lparr>api_key = [], prompt = []\<rparr>
     \<notin> set (fst (translate_handler keyless_env demo_providers [(''text'', JStr ''hola ''), (''target'', JStr ''English'')]))"
  using no_credential_no_refinement [of keyless_env demo_providers "JStr ''hola ''" "JStr ''Spanish''"
          "[(''text'', JStr ''hola ''), (''target'', JStr ''English'')]"]
  by (simp add: keyless_env_def GOOGLE_GEMINI_KEY_def)


lemma refine_step_skipped:
  "AI_PROVIDER pe = ''none'' \<or> body_field body ''refine'' = JBool False \<Longrightarrow>
     refine_step pe pv body text source = ([], text)"
  by (auto simp: refine_step_def refineRequested_def)




lemma languages_get_shown: "\<exists>x. lang_to_string (languages_get key) = Inr x"
  by (cases "map_of languages key") (auto simp: languages_get_def)

lemma resolve_language_shown:
  "to_string v = Inr k \<Longrightarrow> \<exists>l x. resolve_language v = Inr l \<and> lang_to_string l = Inr x \<and> (truthy v \<longrightarrow> lang_truthy l)"
  using languages_get_shown [of k]
  by (auto simp: resolve_language_def Let_def)

text \<open>
  Claim C1. When \<^verbatim>\<open>refine\<close> is the boolean \<^verbatim>\<open>false\<close>, the run has no refinement event
  (neither the log line nor a call to the refinement provider), and every call to the
  translation provider carries the original \<^verbatim>\<open>text\<close> as its query. When \<^verbatim>\<open>text\<close>,
  \<^verbatim>\<open>target\<close> and \<^verbatim>\<open>source\<close> are non-empty strings, the run is that one translation call.
\<close>

theorem refine_false_forwards_text:
  assumes "body_field body ''refine'' = JBool False"
  shows "(\<forall>e \<in> set (fst (translate_handler pe pv body)). \<not> is_refinement_event e) \<and>
         (\<forall>r. TranslateFetch r \<in> set (fst (translate_handler pe pv body)) \<longrightarrow>
               to_string (body_field body ''text'') = Inr (q r)) \<and>
         (\<forall>s t src. body_field body ''text'' = JStr s \<and> s \<noteq> [] \<and>
               body_field body ''target'' = JStr t \<and> t \<noteq> [] \<and>
               body_field body ''source'' = JStr src \<and> src \<noteq> [] \<longrightarrow>
               (\<exists>lp. fst (translate_handler pe pv body) = [TranslateFetch \<lparr>q = s, langpair = lp\<rparr>]))"
proof (intro conjI ballI allI impI)
  have step: "refine_step pe pv body (body_field body ''text'') (body_field body ''source'') = ([], body_field body ''text'')"
    using assms by (simp add: refine_step_skipped)
  {
    fix e assume "e \<in> set (fst (translate_handler pe pv body))"
    then have "e \<in> set (fst (translate_try pe pv body))" by (simp add: translate_handler_events)
    then have "\<exists>qs. to_string (body_field body ''text'') = Inr qs \<and>
                 (e = DetectFetch \<lparr>q = qs, langpair = ''en|en''\<rparr> \<or> (\<exists>lp. e = TranslateFetch \<lparr>q = qs, langpair = lp\<rparr>))"
    proof (cases rule: translate_try_events)
      case (refine ev rt)
      with step show ?thesis by simp
    next
      case (rest ev rt ev' r)
      with step have "rt = body_field body ''text''" by simp
      with resolve_and_translate_events [OF rest(2,3)] show ?thesis by simp
    qed
  } note shape = this
  show "\<not> is_refinement_event e" if "e \<in> set (fst (translate_handler pe pv body))" for e
    using shape [OF that] by auto
  show "to_string (body_field body ''text'') = Inr (q r)"
    if "TranslateFetch r \<in> set (fst (translate_handler pe pv body))" for r
    using shape [OF that] by auto
  show "\<exists>lp. fst (translate_handler pe pv body) = [TranslateFetch \<lparr>q = s, langpair = lp\<rparr>]"
    if given: "body_field body ''text'' = JStr s \<and> s \<noteq> [] \<and>
        body_field body ''target'' = JStr t \<and> t \<noteq> [] \<and>
        body_field body ''source'' = JStr src \<and> src \<noteq> []" for s t src
  proof -
    obtain lt xt where tgt: "resolve_language (JStr t) = Inr lt" "lang_to_string lt = Inr xt"
      using resolve_language_shown [of "JStr t" t] by auto
    obtain ls xs where src: "resolve_language (JStr src) = Inr ls" "lang_to_string ls = Inr xs" "lang_truthy ls"
      using resolve_language_shown [of "JStr src" src] given by auto
    have "fst (translate_try pe pv body) = [TranslateFetch \<lparr>q = s, langpair = xs @ ''|'' @ xt\<rparr>]"
      using given step tgt src
      by (simp add: translate_try_def resolve_and_translate_def source_language_def translate_call_def
               split: prod.splits)
    then show ?thesis by (simp add: translate_handler_events)
  qed
qed

theorem refine_false_forwards_text_witness:
  "body_field [(''text'', JStr ''hola''), (''target'', JStr ''English''), (''source'', JStr ''Spanish''), (''refine'', JBool False)] ''refine'' = JBool False \<and>
   fst (translate_handler demo_env demo_providers
      [(''text'', JStr ''hola''), (''target'', JStr ''English''), (''source'', JStr ''Spanish''), (''refine'', JBool False)])
     = [TranslateFetch \<lparr>q = ''hola'', langpair = ''es|en''\<rparr>]"
proof -
  let ?body = "[(''text'', JStr ''hola''), (''target'', JStr ''English''), (''source'', JStr ''Spanish''), (''refine'', JBool False)]"
  have "body_field ?body ''refine'' = JBool False" by (simp add: body_field_def)
  from refine_false_forwards_text [OF this, of demo_env demo_providers]
  have "\<exists>lp. fst (translate_handler demo_env demo_providers ?body) = [TranslateFetch \<lparr>q = ''hola'', langpair = lp\<rparr>]"
    by (simp add: body_field_def)
  then obtain lp where run: "fst (translate_handler demo_env demo_providers ?body) = [TranslateFetch \<lparr>q = ''hola'', langpair = lp\<rparr>]" ..
  have "langpair (case hd (fst (translate_handler demo_env demo_providers ?body)) of TranslateFetch r \<Rightarrow> r) = ''es|en''"
    by (simp add: translate_handler_def translate_try_def body_field_def refine_step_def refineRequested_def
          resolve_and_translate_def resolve_language_def languages_get_def languages_def
          source_language_def translate_call_def demo_providers_def json_response_def translation_of_def js_or_def)
  with run show ?thesis by (simp add: body_field_def)
qed

lemma refine_step_no_translate:
  "refine_step pe pv body text source = (ev, rt) \<Longrightarrow> TranslateFetch r \<notin> set ev"
  by (auto dest: refine_step_events)

lemma source_language_no_translate:
  "source_language pv source refinedText = (ev, r) \<Longrightarrow> TranslateFetch x \<notin> set ev"
  by (auto dest: source_language_events)

lemma translate_call_reply:
  assumes "translate_call pv refinedText s t = (ev, r)" "TranslateFetch req \<in> set ev"
    and "translate_fetch pv req = Resolves response" "json_body response = Inr data"
  shows "r = (case translation_of data of
                Inl e \<Rightarrow> Inl e
              | Inr translation \<Rightarrow> Inr \<lparr>status = 200, payload = JObj [(''translation'', translation)]\<rparr>)"
  using assms by (auto simp: translate_call_def split: sum.splits)

lemma resolve_and_translate_reply:
  assumes run: "resolve_and_translate pv refinedText target source = (ev, r)" and e: "TranslateFetch req \<in> set ev"
    and out: "translate_fetch pv req = Resolves response" "json_body response = Inr data"
  shows "r = (case translation_of data of
                Inl e \<Rightarrow> Inl e
              | Inr translation \<Rightarrow> Inr \<lparr>status = 200, payload = JObj [(''translation'', translation)]\<rparr>)"
proof (cases "resolve_language target")
  case (Inl err)
  with run e show ?thesis by (simp add: resolve_and_translate_def)
next
  case (Inr targetLang)
  obtain ev1 r1 where src: "source_language pv source refinedText = (ev1, r1)"
    by (cases "source_language pv source refinedText")
  show ?thesis
  proof (cases r1)
    case (Inl err)
    with run Inr src have "ev = ev1" by (simp add: resolve_and_translate_def)
    with e source_language_no_translate [OF src] show ?thesis by simp
  next
    case code: (Inr code)
    obtain ev2 r2 where tr: "translate_call pv refinedText code targetLang = (ev2, r2)"
      by (cases "translate_call pv refinedText code targetLang")
    with run Inr src code have "ev = ev1 @ ev2" "r = r2" by (simp_all add: resolve_and_translate_def)
    with e source_language_no_translate [OF src] have "TranslateFetch req \<in> set ev2" by simp
    from translate_call_reply [OF tr this out] \<open>r = r2\<close> show ?thesis by simp
  qed
qed

lemma translate_try_nonempty:
  assumes "e \<in> set (fst (translate_try pe pv body))"
  shows "truthy (body_field body ''text'') \<and> truthy (body_field body ''target'') \<and>
         (\<exists>a. to_string (body_field body ''text'') = Inr a) \<and>
         (\<exists>b. to_string (body_field body ''target'') = Inr b)"
  using assms by (auto simp: translate_try_def Let_def split: if_splits sum.splits)

lemma get_field_present: "\<not> nullish d \<Longrightarrow> get_field d name = Inr (opt_get d name)"
  by (cases d) simp_all

text \<open>
  Claim C3, as the code has it. Whenever a run reaches the translation call and the provider
  answers with a JSON body other than \<^verbatim>\<open>null\<close> that has no \<^verbatim>\<open>responseData.translatedText\<close>
  (the read yields \<^verbatim>\<open>undefined\<close>, or any other falsy value), the reply has status 200 and its
  \<^verbatim>\<open>translation\<close> is the marker \<^verbatim>\<open>Error: no translation\<close>. A parsed body is never
  \<^verbatim>\<open>undefined\<close>.
\<close>

theorem missing_translation_marker:
  assumes call: "TranslateFetch req \<in> set (fst (translate_handler pe pv body))"
    and out: "translate_fetch pv req = Resolves response" "json_body response = Inr data"
    and present: "\<not> nullish data"
    and lacks: "\<not> truthy (opt_get (opt_get data ''responseData'') ''translatedText'')"
  shows "snd (translate_handler pe pv body) =
           \<lparr>status = 200, payload = JObj [(''translation'', JStr ''Error: no translation'')]\<rparr>"
proof -
  have marker: "translation_of data = Inr (JStr ''Error: no translation'')"
    using present lacks by (simp add: translation_of_def js_or_def get_field_present)
  from call have "TranslateFetch req \<in> set (fst (translate_try pe pv body))"
    by (simp add: translate_handler_events)
  then show ?thesis
  proof (cases rule: translate_try_events)
    case (refine ev rt)
    with refine_step_no_translate show ?thesis by blast
  next
    case (rest ev rt ev' r)
    from resolve_and_translate_reply [OF rest(2,3) out] marker
    have r: "r = Inr \<lparr>status = 200, payload = JObj [(''translation'', JStr ''Error: no translation'')]\<rparr>"
      by simp
    from call have "TranslateFetch req \<in> set (fst (translate_try pe pv body))"
      by (simp add: translate_handler_events)
    from translate_try_nonempty [OF this]
    obtain a b where valid: "truthy (body_field body ''text'')" "truthy (body_field body ''target'')"
      and shown: "to_string (body_field body ''text'') = Inr a" "to_string (body_field body ''target'') = Inr b"
      by blast
    from handler_accepts [OF valid shown rest(1,2)] r show ?thesis by simp
  qed
qed

theorem missing_translation_marker_witness:
  "TranslateFetch \<lparr>q = ''hola'', langpair = ''es|en''\<rparr> \<in> set (fst (translate_handler demo_env fieldless_providers
      [(''text'', JStr ''hola''), (''target'', JStr ''English''), (''source'', JStr ''Spanish''), (''refine'', JBool False)])) \<and>
   \<not> nullish (JObj [(''responseStatus'', JNum ''403'')]) \<and>
   opt_get (opt_get (JObj [(''responseStatus'', JNum ''403'')]) ''responseData'') ''translatedText'' = JUndefined \<and>
   snd (translate_handler demo_env fieldless_providers
      [(''text'', JStr ''hola''), (''target'', JStr ''English''), (''source'', JStr ''Spanish''), (''refine'', JBool False)])
     = \<lparr>status = 200, payload = JObj [(''translation'', JStr ''Error: no translation'')]\<rparr>"
proof -
  let ?body = "[(''text'', JStr ''hola''), (''target'', JStr ''English''), (''source'', JStr ''Spanish''), (''refine'', JBool False)]"
  let ?data = "JObj [(''responseStatus'', JNum ''403'')]"
  have call: "TranslateFetch \<lparr>q = ''hola'', langpair = ''es|en''\<rparr> \<in> set (fst (translate_handler demo_env fieldless_providers ?body))"
    by (simp add: translate_handler_def translate_try_def body_field_def refine_step_def refineRequested_def
          resolve_and_translate_def resolve_language_def languages_get_def languages_def
          source_language_def translate_call_def fieldless_providers_def json_response_def translation_of_def js_or_def)
  have out: "translate_fetch fieldless_providers \<lparr>q = ''hola'', langpair = ''es|en''\<rparr>
               = Resolves \<lparr>http_status = 200, json_body = Inr ?data\<rparr>"
    by (simp add: fieldless_providers_def json_response_def)
  have body: "json_body \<lparr>http_status = 200, json_body = Inr ?data\<rparr> = Inr ?data"
    by simp
  have present: "\<not> nullish ?data" by simp
  have lacks: "\<not> truthy (opt_get (opt_get ?data ''responseData'') ''translatedText'')" by simp
  from missing_translation_marker [OF call out body present lacks] call show ?thesis by simp
qed

text \<open>
  The claim as stated covers every JSON body without the field. The body \<^verbatim>\<open>null\<close> has no
  \<^verbatim>\<open>responseData.translatedText\<close>, but \<^verbatim>\<open>data.responseData\<close> throws on it and the handler's
  \<^verbatim>\<open>catch\<close> answers 500.
\<close>

theorem null_translation_body_counterexample:
  "translate_fetch null_body_providers \<lparr>q = ''hola'', langpair = ''es|en''\<rparr>
     = Resolves \<lparr>http_status = 200, json_body = Inr JNull\<rparr> \<and>
   fst (translate_handler demo_env null_body_providers
      [(''text'', JStr ''hola''), (''target'', JStr ''English''), (''source'', JStr ''Spanish''), (''refine'', JBool False)])
     = [TranslateFetch \<lparr>q = ''hola'', langpair = ''es|en''\<rparr>] \<and>
   status (snd (translate_handler demo_env null_body_providers
      [(''text'', JStr ''hola''), (''target'', JStr ''English''), (''source'', JStr ''Spanish''), (''refine'', JBool False)]))
     = 500"
  by (simp add: translate_handler_def translate_try_def body_field_def refine_step_def refineRequested_def
        resolve_and_translate_def resolve_language_def languages_get_def languages_def
        source_language_def translate_call_def null_body_providers_def json_response_def translation_of_def
        server_error_def)

lemma gemini_try_fails:
  assumes "\<forall>r. GeminiFetch r \<in> set ev \<longrightarrow> refinement_fails (gemini_fetch pv r)"
    and "gemini_try pv key text language = (ev, Inr v)"
  shows "v = text"
proof -
  from assms(2) obtain p where p: "gemini_prompt text language = Inr p"
    by (cases "gemini_prompt text language") (auto simp: gemini_try_def)
  with assms(2) have "GeminiFetch \<lparr>api_key = key, prompt = p\<rparr> \<in> set ev"
    by (auto simp: gemini_try_def)
  with assms(1) have "refinement_fails (gemini_fetch pv \<lparr>api_key = key, prompt = p\<rparr>)" by blast
  with assms(2) p show ?thesis
    by (cases "gemini_fetch pv \<lparr>api_key = key, prompt = p\<rparr>")
       (auto simp: gemini_try_def isl_def split: if_splits)
qed

lemma refine_step_fails:
  assumes "\<forall>r. GeminiFetch r \<in> set ev \<longrightarrow> refinement_fails (gemini_fetch pv r)"
    and "refine_step pe pv body text source = (ev, rt)"
  shows "rt = text"
proof (cases "AI_PROVIDER pe \<noteq> ''none'' \<and> refineRequested body \<and> AI_PROVIDER pe = ''gemini''
              \<and> GOOGLE_GEMINI_KEY pe \<noteq> None \<and> GOOGLE_GEMINI_KEY pe \<noteq> Some []")
  case False
  with assms(2) show ?thesis
    by (auto simp: refine_step_def refineOriginalText_def refineWithGemini_def split: if_splits)
next
  case True
  then obtain key where key: "GOOGLE_GEMINI_KEY pe = Some key" "key \<noteq> []" by auto
  obtain ev1 r1 where attempt: "gemini_try pv key text (js_or source (JStr ''English'')) = (ev1, r1)"
    by (cases "gemini_try pv key text (js_or source (JStr ''English''))")
  with True key assms(2) have ev: "ev = LogRefining (AI_PROVIDER pe) # ev1"
    and rt: "rt = (case r1 of Inl err \<Rightarrow> text | Inr v \<Rightarrow> v)"
    by (auto simp: refine_step_def refineOriginalText_def refineWithGemini_def split: sum.splits)
  show ?thesis
  proof (cases r1)
    case (Inl err)
    with rt show ?thesis by simp
  next
    case (Inr v)
    from assms(1) ev have "\<forall>r. GeminiFetch r \<in> set ev1 \<longrightarrow> refinement_fails (gemini_fetch pv r)" by simp
    from gemini_try_fails [OF this] attempt Inr rt show ?thesis by simp
  qed
qed

lemma AI_PROVIDER_none: "AI_PROVIDER (pe\<lparr>env_AI_PROVIDER := Some ''none''\<rparr>) = ''none''"
  by (simp add: AI_PROVIDER_def)

text \<open>
  Claim C6. Take a request with truthy \<^verbatim>\<open>text\<close> and \<^verbatim>\<open>target\<close> and a run in which every call
  to the refinement provider fails (it rejects, as on an exception or the timeout, or answers
  with a non-success status or a body that is not JSON). Then the run is some refinement
  events followed by exactly the run of the same request with refinement switched off, so
  its reply is the reply of that run; every translation call carries the original
  \<^verbatim>\<open>text\<close>; and when \<^verbatim>\<open>text\<close>, \<^verbatim>\<open>target\<close> and \<^verbatim>\<open>source\<close> are strings the translation
  call is made.
\<close>

theorem refinement_failure_not_fatal:
  assumes valid: "truthy (body_field body ''text'')" "truthy (body_field body ''target'')"
    and fails: "\<forall>r. GeminiFetch r \<in> set (fst (translate_handler pe pv body)) \<longrightarrow>
                   refinement_fails (gemini_fetch pv r)"
  shows "(\<exists>ev. (\<forall>e \<in> set ev. is_refinement_event e) \<and>
            fst (translate_handler pe pv body) =
              ev @ fst (translate_handler (pe\<lparr>env_AI_PROVIDER := Some ''none''\<rparr>) pv body)) \<and>
         snd (translate_handler pe pv body) =
           snd (translate_handler (pe\<lparr>env_AI_PROVIDER := Some ''none''\<rparr>) pv body) \<and>
         (\<forall>r. TranslateFetch r \<in> set (fst (translate_handler pe pv body)) \<longrightarrow>
               to_string (body_field body ''text'') = Inr (q r)) \<and>
         (\<forall>s t src. body_field body ''text'' = JStr s \<and> body_field body ''target'' = JStr t \<and>
               body_field body ''source'' = JStr src \<and> src \<noteq> [] \<longrightarrow>
               (\<exists>lp. TranslateFetch \<lparr>q = s, langpair = lp\<rparr> \<in> set (fst (translate_handler pe pv body))))"
proof -
  let ?text = "body_field body ''text''" and ?target = "body_field body ''target''"
  let ?source = "body_field body ''source''"
  let ?off = "pe\<lparr>env_AI_PROVIDER := Some ''none''\<rparr>"
  obtain ev rt where step: "refine_step pe pv body ?text ?source = (ev, rt)"
    by (cases "refine_step pe pv body ?text ?source")
  have rt: "rt = ?text" if "to_string ?text = Inr a" "to_string ?target = Inr b" for a b
  proof -
    obtain ev1 r1 where "resolve_and_translate pv rt ?target ?source = (ev1, r1)"
      by (cases "resolve_and_translate pv rt ?target ?source")
    from handler_accepts [OF valid that step this] have "fst (translate_handler pe pv body) = ev @ ev1"
      by simp
    with fails have "\<forall>r. GeminiFetch r \<in> set ev \<longrightarrow> refinement_fails (gemini_fetch pv r)" by simp
    from refine_step_fails [OF this step] show ?thesis .
  qed
  have ev: "\<forall>e \<in> set ev. is_refinement_event e"
    using refine_step_events [OF step] by blast
  have off: "refine_step ?off pv body ?text ?source = ([], ?text)"
    by (rule refine_step_skipped) (simp add: AI_PROVIDER_none)
  obtain ev' r where rest: "resolve_and_translate pv ?text ?target ?source = (ev', r)"
    by (cases "resolve_and_translate pv ?text ?target ?source")
  have same: "translate_try pe pv body = (ev0 @ fst (translate_try ?off pv body), snd (translate_try ?off pv body))
              \<and> (\<forall>e \<in> set ev0. is_refinement_event e)"
    if "ev0 = (case to_string ?text of Inl e \<Rightarrow> [] | Inr a \<Rightarrow> (case to_string ?target of Inl e \<Rightarrow> [] | Inr b \<Rightarrow> ev))" for ev0
    using that valid step rt off rest ev
    by (auto simp: translate_try_def Let_def split: sum.splits)
  then obtain ev0 where run:
      "translate_try pe pv body = (ev0 @ fst (translate_try ?off pv body), snd (translate_try ?off pv body))"
      and ev0: "\<forall>e \<in> set ev0. is_refinement_event e"
    by blast
  have handler: "translate_handler pe pv body =
      (ev0 @ fst (translate_handler ?off pv body), snd (translate_handler ?off pv body))"
    using run by (simp add: translate_handler_def split: prod.splits sum.splits)
  have queries: "to_string ?text = Inr (q x)" if "TranslateFetch x \<in> set (fst (translate_handler pe pv body))" for x
  proof -
    from that have "TranslateFetch x \<in> set (fst (translate_try pe pv body))"
      by (simp add: translate_handler_events)
    then show ?thesis
    proof (cases rule: translate_try_events)
      case (refine ev1 rt1)
      with refine_step_no_translate show ?thesis by blast
    next
      case (rest ev1 rt1 ev2 r2)
      from that have "TranslateFetch x \<in> set (fst (translate_try pe pv body))"
        by (simp add: translate_handler_events)
      from translate_try_nonempty [OF this] rt step rest(1) have "rt1 = ?text" by auto
      with resolve_and_translate_events [OF rest(2,3)] show ?thesis by auto
    qed
  qed
  have reaches: "\<exists>lp. TranslateFetch \<lparr>q = s, langpair = lp\<rparr> \<in> set (fst (translate_handler pe pv body))"
    if given: "?text = JStr s \<and> ?target = JStr t \<and> ?source = JStr src \<and> src \<noteq> []" for s t src
  proof -
    obtain lt xt where tgt: "resolve_language (JStr t) = Inr lt" "lang_to_string lt = Inr xt"
      using resolve_language_shown [of "JStr t" t] by auto
    obtain ls xs where src: "resolve_language (JStr src) = Inr ls" "lang_to_string ls = Inr xs" "lang_truthy ls"
      using resolve_language_shown [of "JStr src" src] given by auto
    have "fst (translate_try ?off pv body) = [TranslateFetch \<lparr>q = s, langpair = xs @ ''|'' @ xt\<rparr>]"
      using given valid off tgt src
      by (simp add: translate_try_def resolve_and_translate_def source_language_def translate_call_def
               split: prod.splits)
    with handler show ?thesis by (auto simp: translate_handler_events)
  qed
  from handler ev0 queries reaches show ?thesis by auto
qed

theorem refinement_failure_not_fatal_witness:
  "refinement_fails (Resolves \<lparr>http_status = 503, json_body = Inr (JObj [])\<rparr>) \<and>
   snd (translate_handler demo_env failing_providers
      [(''text'', JStr ''hola''), (''target'', JStr ''English''), (''source'', JStr ''Spanish'')])
     = \<lparr>status = 200, payload = JObj [(''translation'', JStr ''hello'')]\<rparr>"
proof -
  let ?body = "[(''text'', JStr ''hola''), (''target'', JStr ''English''), (''source'', JStr ''Spanish'')]"
  have fails: "\<forall>r. GeminiFetch r \<in> set (fst (translate_handler demo_env failing_providers ?body))
      \<longrightarrow> refinement_fails (gemini_fetch failing_providers r)"
    by (simp add: failing_providers_def ok_def)
  have valid: "truthy (body_field ?body ''text'')" "truthy (body_field ?body ''target'')"
    by (simp_all add: body_field_def)
  have off: "snd (translate_handler (demo_env\<lparr>env_AI_PROVIDER := Some ''none''\<rparr>) failing_providers ?body)
      = \<lparr>status = 200, payload = JObj [(''translation'', JStr ''hello'')]\<rparr>"
    by (simp add: translate_handler_def translate_try_def body_field_def refine_step_def AI_PROVIDER_def
          resolve_and_translate_def resolve_language_def languages_get_def languages_def
          source_language_def translate_call_def failing_providers_def json_response_def translation_of_def js_or_def)
  from refinement_failure_not_fatal [OF valid fails] off
  have "snd (translate_handler demo_env failing_providers ?body)
      = \<lparr>status = 200, payload = JObj [(''translation'', JStr ''hello'')]\<rparr>" by simp
  then show ?thesis by (simp add: ok_def)
qed

lemma call_trim_fallback:
  "(case call_trim v of Inl err \<Rightarrow> Inr v | Inr r \<Rightarrow> Inr r)
     = (Inr (case v of JStr s \<Rightarrow> JStr (trim s) | _ \<Rightarrow> v) :: js_error + jsval)"
  by (cases v) simp_all

text \<open>
  What the adapter returns on a success response without a usable first candidate text:
  on the body \<^verbatim>\<open>null\<close> the read of \<^verbatim>\<open>candidates\<close> throws and the \<^verbatim>\<open>catch\<close> returns
  the text as it is; on any other body whose chain of reads ends in a falsy value, the text
  takes the place of the candidate and goes through \<^verbatim>\<open>refined.trim()\<close>.
\<close>

lemma fallback_goes_through_trim:
  assumes key: "GOOGLE_GEMINI_KEY pe = Some key" "key \<noteq> []"
    and prompt: "gemini_prompt text language = Inr p"
    and response: "gemini_fetch pv \<lparr>api_key = key, prompt = p\<rparr> = Resolves response"
                  "ok response" "json_body response = Inr data"
    and shape: "nullish data \<or> (\<exists>c. candidate_text data = Inr c \<and> \<not> truthy c)"
  shows "refineWithGemini pe pv text language =
           ([GeminiFetch \<lparr>api_key = key, prompt = p\<rparr>],
            Inr (case text of
                   JStr s \<Rightarrow> JStr (if nullish data then s else trim s)
                 | _ \<Rightarrow> text))"
proof (cases "nullish data")
  case True
  then have "\<exists>e. candidate_text data = Inl e"
    by (cases data) (simp_all add: candidate_text_def)
  with True key prompt response show ?thesis
    by (auto simp: refineWithGemini_def gemini_try_def split: jsval.splits)
next
  case False
  with shape obtain c where "candidate_text data = Inr c" "\<not> truthy c" by blast
  with key prompt response
  have "refineWithGemini pe pv text language =
          ([GeminiFetch \<lparr>api_key = key, prompt = p\<rparr>],
           case call_trim text of Inl err \<Rightarrow> Inr text | Inr r \<Rightarrow> Inr r)"
    by (simp add: refineWithGemini_def gemini_try_def js_or_def split: sum.splits)
  also have "(case call_trim text of Inl err \<Rightarrow> Inr text | Inr r \<Rightarrow> Inr r)
      = (Inr (case text of JStr s \<Rightarrow> JStr (if nullish data then s else trim s) | _ \<Rightarrow> text) :: js_error + jsval)"
    using False by (simp add: call_trim_fallback split: jsval.splits)
  finally show ?thesis .
qed

text \<open>
  Claim C4 says that on a success response with no first candidate text the adapter returns
  the input text unchanged. With the text \<^verbatim>\<open>" hola"\<close> and the success body \<^verbatim>\<open>{}\<close> the adapter
  returns \<^verbatim>\<open>"hola"\<close>: the fallback value is trimmed. The same text comes back as it is from
  every other fallback of the adapter: the success body \<^verbatim>\<open>null\<close>, a response with status 503,
  a rejected call, and a missing credential.
\<close>

theorem fallback_text_is_trimmed:
  "candidate_text (JObj []) = Inr JUndefined \<and>
   snd (refineWithGemini demo_env demo_providers (JStr '' hola'') (JStr ''Spanish'')) = Inr (JStr ''hola'') \<and>
   snd (refineWithGemini demo_env null_body_providers (JStr '' hola'') (JStr ''Spanish'')) = Inr (JStr '' hola'') \<and>
   snd (refineWithGemini demo_env failing_providers (JStr '' hola'') (JStr ''Spanish'')) = Inr (JStr '' hola'') \<and>
   snd (refineWithGemini demo_env fieldless_providers (JStr '' hola'') (JStr ''Spanish'')) = Inr (JStr '' hola'') \<and>
   snd (refineWithGemini keyless_env demo_providers (JStr '' hola'') (JStr ''Spanish'')) = Inr (JStr '' hola'')"
  by (simp add: refineWithGemini_def gemini_try_def gemini_prompt_def candidate_text_def js_or_def
        GOOGLE_GEMINI_KEY_def demo_env_def keyless_env_def demo_providers_def null_body_providers_def
        failing_providers_def fieldless_providers_def json_response_def ok_def
        trim_def is_white_space_def TypeError_def)

lemma call_trim_string: "call_trim v = Inr r \<Longrightarrow> \<exists>s. r = JStr s"
  by (cases v) auto

lemma gemini_try_shown:
  "gemini_try pv key text language = (ev, Inr v) \<Longrightarrow> v = text \<or> (\<exists>s. v = JStr s)"
  by (auto simp: gemini_try_def dest: call_trim_string
           split: sum.splits fetch_outcome.splits if_splits)

lemma refine_step_shown:
  assumes "refine_step pe pv body text source = (ev, rt)"
  shows "rt = text \<or> (\<exists>s. rt = JStr s)"
  using assms
  by (auto simp: refine_step_def refineOriginalText_def refineWithGemini_def
           dest: gemini_try_shown split: if_splits prod.splits sum.splits option.splits)

lemma detect_source_run:
  assumes "to_string refinedText = Inr qs"
  shows "detect_source pv refinedText =
           ([DetectFetch \<lparr>q = qs, langpair = ''en|en''\<rparr>],
            (case detect_fetch pv \<lparr>q = qs, langpair = ''en|en''\<rparr> of
               Rejects e \<Rightarrow> Inl e
             | Resolves detectResponse \<Rightarrow>
                 (case json_body detectResponse of
                    Inl e \<Rightarrow> Inl e
                  | Inr detectData \<Rightarrow>
                      (case detected_language detectData of
                         Inl e \<Rightarrow> Inl e
                       | Inr code \<Rightarrow>
                           (case to_string code of
                              Inl e \<Rightarrow> Inl e
                            | Inr shown \<Rightarrow> Inr (Val code))))))"
  using assms by (simp add: detect_source_def)

lemma resolve_and_translate_detects:
  assumes "\<not> truthy source" "to_string refinedText = Inr qs" "resolve_language target = Inr targetLang"
  shows "\<exists>ev. fst (resolve_and_translate pv refinedText target source)
           = DetectFetch \<lparr>q = qs, langpair = ''en|en''\<rparr> # ev"
  using assms
  by (simp add: resolve_and_translate_def source_language_def detect_source_run
           split: sum.splits prod.splits)

text \<open>
  Claim C7, as the code has it. Take a request with no \<^verbatim>\<open>source\<close> whose \<^verbatim>\<open>text\<close> and
  \<^verbatim>\<open>target\<close> are truthy and convert to strings. Its run makes, after its refinement events,
  the detection call with the pair \<^verbatim>\<open>en|en\<close>. When that call resolves to a JSON body other
  than \<^verbatim>\<open>null\<close> whose \<^verbatim>\<open>responseDetails\<close> is absent, \<^verbatim>\<open>null\<close> or a string, the resolved source
  code is \<^verbatim>\<open>en\<close> if the details report an unsupported pair or the detected-language value is
  falsy (absent, \<^verbatim>\<open>null\<close>, \<^verbatim>\<open>false\<close>, zero, the empty string), and the detected language of
  the metadata otherwise; and when that code converts to a string, the run ends with the
  translation call whose language pair is that string, a bar and the resolved target.
\<close>

theorem detected_source_or_fallback:
  assumes valid: "truthy (body_field body ''text'')" "truthy (body_field body ''target'')"
    and shown: "to_string (body_field body ''text'') = Inr a" "to_string (body_field body ''target'') = Inr b"
    and no_source: "map_of body ''source'' = None"
  shows "(\<exists>ev qs rest.
            (\<forall>e \<in> set ev. is_refinement_event e) \<and>
            fst (translate_handler pe pv body) = ev @ DetectFetch \<lparr>q = qs, langpair = ''en|en''\<rparr> # rest) \<and>
         ((\<forall>r. DetectFetch r \<in> set (fst (translate_handler pe pv body)) \<longrightarrow>
                 detect_fetch pv r = Resolves detectResponse) \<and>
          json_body detectResponse = Inr detectData \<and> \<not> nullish detectData \<and>
          opt_match (opt_get detectData ''responseDetails'') = Inr unsupported \<longrightarrow>
            (let detected = opt_get (opt_get detectData ''responseMetadata'') ''detectedLanguage'';
                 code = (if unsupported \<or> \<not> truthy detected then JStr ''en'' else detected)
             in detected_language detectData = Inr code \<and>
                (\<forall>sourceLangCode. to_string code = Inr sourceLangCode \<longrightarrow>
                   (\<exists>ev qs targetLang t.
                      resolve_language (body_field body ''target'') = Inr targetLang \<and>
                      lang_to_string targetLang = Inr t \<and>
                      (\<forall>e \<in> set ev. is_refinement_event e) \<and>
                      fst (translate_handler pe pv body) =
                        ev @ [DetectFetch \<lparr>q = qs, langpair = ''en|en''\<rparr>,
                              TranslateFetch \<lparr>q = qs, langpair = sourceLangCode @ ''|'' @ t\<rparr>]))))"
proof -
  let ?text = "body_field body ''text''" and ?target = "body_field body ''target''"
  let ?source = "body_field body ''source''"
  have source: "?source = JUndefined" using no_source by (simp add: body_field_def)
  obtain ev rt where step: "refine_step pe pv body ?text ?source = (ev, rt)"
    by (cases "refine_step pe pv body ?text ?source")
  have ev: "\<forall>e \<in> set ev. is_refinement_event e"
    using refine_step_events [OF step] by blast
  obtain qs where qs: "to_string rt = Inr qs"
    using refine_step_shown [OF step] shown by auto
  obtain lt xt where tgt: "resolve_language ?target = Inr lt" "lang_to_string lt = Inr xt"
    using resolve_language_shown [OF shown(2)] by auto
  obtain ev' r where rest: "resolve_and_translate pv rt ?target ?source = (ev', r)"
    by (cases "resolve_and_translate pv rt ?target ?source")
  have events: "fst (translate_handler pe pv body) = ev @ ev'"
    using handler_accepts [OF valid shown step rest] by simp
  obtain tail where tail: "ev' = DetectFetch \<lparr>q = qs, langpair = ''en|en''\<rparr> # tail"
    using resolve_and_translate_detects [of ?source rt qs ?target lt pv] source qs tgt rest by auto
  have first: "\<exists>ev qs rest.
            (\<forall>e \<in> set ev. is_refinement_event e) \<and>
            fst (translate_handler pe pv body) = ev @ DetectFetch \<lparr>q = qs, langpair = ''en|en''\<rparr> # rest"
    using events tail ev by blast
  have second: "let detected = opt_get (opt_get detectData ''responseMetadata'') ''detectedLanguage'';
                 code = (if unsupported \<or> \<not> truthy detected then JStr ''en'' else detected)
             in detected_language detectData = Inr code \<and>
                (\<forall>sourceLangCode. to_string code = Inr sourceLangCode \<longrightarrow>
                   (\<exists>ev qs targetLang t.
                      resolve_language ?target = Inr targetLang \<and>
                      lang_to_string targetLang = Inr t \<and>
                      (\<forall>e \<in> set ev. is_refinement_event e) \<and>
                      fst (translate_handler pe pv body) =
                        ev @ [DetectFetch \<lparr>q = qs, langpair = ''en|en''\<rparr>,
                              TranslateFetch \<lparr>q = qs, langpair = sourceLangCode @ ''|'' @ t\<rparr>]))"
    if detection: "\<forall>r. DetectFetch r \<in> set (fst (translate_handler pe pv body)) \<longrightarrow>
                 detect_fetch pv r = Resolves detectResponse"
      and data: "json_body detectResponse = Inr detectData" and present: "\<not> nullish detectData"
      and details: "opt_match (opt_get detectData ''responseDetails'') = Inr unsupported"
  proof -
    define detected where "detected = opt_get (opt_get detectData ''responseMetadata'') ''detectedLanguage''"
    define code where "code = (if unsupported \<or> \<not> truthy detected then JStr ''en'' else detected)"
    from events tail detection
    have out: "detect_fetch pv \<lparr>q = qs, langpair = ''en|en''\<rparr> = Resolves detectResponse" by simp
    have detected_code: "detected_language detectData = Inr code"
      using present details
      by (auto simp: detected_language_def js_or_def get_field_present code_def detected_def)
    have run: "\<exists>ev qs targetLang t.
                      resolve_language ?target = Inr targetLang \<and>
                      lang_to_string targetLang = Inr t \<and>
                      (\<forall>e \<in> set ev. is_refinement_event e) \<and>
                      fst (translate_handler pe pv body) =
                        ev @ [DetectFetch \<lparr>q = qs, langpair = ''en|en''\<rparr>,
                              TranslateFetch \<lparr>q = qs, langpair = s @ ''|'' @ t\<rparr>]"
      if s: "to_string code = Inr s" for s
    proof -
      have "ev' = [DetectFetch \<lparr>q = qs, langpair = ''en|en''\<rparr>,
               TranslateFetch \<lparr>q = qs, langpair = s @ ''|'' @ xt\<rparr>]"
        using rest source qs tgt out data detected_code s
        by (auto simp: resolve_and_translate_def source_language_def detect_source_run translate_call_def
                 split: prod.splits)
      with events ev tgt show ?thesis by blast
    qed
    from detected_code run show ?thesis
      unfolding Let_def detected_def [symmetric] code_def [symmetric] by blast
  qed
  from first second show ?thesis by blast
qed

theorem detected_source_or_fallback_witness:
  "map_of [(''text'', JStr ''hola''), (''target'', JStr ''English'')] ''source'' = None \<and>
   detected_language (JObj [(''responseMetadata'', JObj [(''detectedLanguage'', JStr ''es'')])]) = Inr (JStr ''es'') \<and>
   fst (translate_handler keyless_env detecting_providers [(''text'', JStr ''hola''), (''target'', JStr ''English'')])
     = [LogRefining ''gemini'', DetectFetch \<lparr>q = ''hola'', langpair = ''en|en''\<rparr>,
        TranslateFetch \<lparr>q = ''hola'', langpair = ''es|en''\<rparr>]"
proof -
  let ?body = "[(''text'', JStr ''hola''), (''target'', JStr ''English'')]"
  let ?data = "JObj [(''responseMetadata'', JObj [(''detectedLanguage'', JStr ''es'')])]"
  let ?response = "\<lparr>http_status = 200, json_body = Inr ?data\<rparr>"
  have valid: "truthy (body_field ?body ''text'')" "truthy (body_field ?body ''target'')"
    by (simp_all add: body_field_def)
  have shown: "to_string (body_field ?body ''text'') = Inr ''hola''" "to_string (body_field ?body ''target'') = Inr ''English''"
    by (simp_all add: body_field_def)
  have no_source: "map_of ?body ''source'' = None" by simp
  have detection: "\<forall>r. DetectFetch r \<in> set (fst (translate_handler keyless_env detecting_providers ?body)) \<longrightarrow>
      detect_fetch detecting_providers r = Resolves ?response"
    by (simp add: detecting_providers_def json_response_def)
  have response: "json_body ?response = Inr ?data" "\<not> nullish ?data"
     "opt_match (opt_get ?data ''responseDetails'') = Inr False"
    by simp_all
  have target: "resolve_language (body_field ?body ''target'') = Inr (Val (JStr ''en''))"
    by (simp add: body_field_def resolve_language_def languages_get_def languages_def)
  from detected_source_or_fallback [OF valid shown no_source,
         of keyless_env detecting_providers ?response ?data False]
       detection response
  have "detected_language ?data = Inr (JStr ''es'') \<and>
        (\<exists>ev qs targetLang t.
            resolve_language (body_field ?body ''target'') = Inr targetLang \<and>
            lang_to_string targetLang = Inr t \<and>
            (\<forall>e \<in> set ev. is_refinement_event e) \<and>
            fst (translate_handler keyless_env detecting_providers ?body) =
              ev @ [DetectFetch \<lparr>q = qs, langpair = ''en|en''\<rparr>,
                    TranslateFetch \<lparr>q = qs, langpair = ''es'' @ ''|'' @ t\<rparr>])"
    by (simp add: Let_def)
  then obtain ev qs where code: "detected_language ?data = Inr (JStr ''es'')"
    and run: "fst (translate_handler keyless_env detecting_providers ?body) =
              ev @ [DetectFetch \<lparr>q = qs, langpair = ''en|en''\<rparr>,
                    TranslateFetch \<lparr>q = qs, langpair = ''es|en''\<rparr>]"
    using target by auto
  have "fst (translate_handler keyless_env detecting_providers ?body)
     = [LogRefining ''gemini'', DetectFetch \<lparr>q = ''hola'', langpair = ''en|en''\<rparr>,
        TranslateFetch \<lparr>q = ''hola'', langpair = ''es|en''\<rparr>]"
    by (simp add: translate_handler_def translate_try_def body_field_def refine_step_def refineRequested_def
          refineOriginalText_def refineWithGemini_def GOOGLE_GEMINI_KEY_def AI_PROVIDER_def keyless_env_def
          resolve_and_translate_def resolve_language_def languages_get_def languages_def
          source_language_def detect_source_def detected_language_def translate_call_def
          detecting_providers_def json_response_def translation_of_def js_or_def
          object_prototype_members_def)
  with run code no_source show ?thesis by simp
qed


text \<open>
  The claim as stated fails in five ways, one request each. (1) It takes the fallback only
  when the detected-language field is missing: a detection body that reports no unsupported
  pair and has the field, with the empty string in it, resolves to \<^verbatim>\<open>en\<close>, not to the value
  of the field. (2) A request without \<^verbatim>\<open>source\<close> and without \<^verbatim>\<open>text\<close> is answered 400 and
  makes no detection call. (3) Neither does one whose \<^verbatim>\<open>text\<close> is an object with a property
  \<^verbatim>\<open>toString\<close>, which the log line cannot convert: it is answered 500. (4) The detection body
  \<^verbatim>\<open>null\<close> and (5) a detection body whose \<^verbatim>\<open>responseDetails\<close> is a number have no
  detected-language field, yet nothing resolves to \<^verbatim>\<open>en\<close>: the run stops after the detection
  call and is answered 500.
\<close>

theorem detected_language_field_counterexample:
  "map_of [(''responseMetadata'', JObj [(''detectedLanguage'', JStr [])])] ''responseDetails'' = None \<and>
   map_of [(''detectedLanguage'', JStr [])] ''detectedLanguage'' = Some (JStr []) \<and>
   detected_language (JObj [(''responseMetadata'', JObj [(''detectedLanguage'', JStr [])])]) \<noteq> Inr (JStr []) \<and>
   fst (translate_handler keyless_env undetected_providers [(''text'', JStr ''hola''), (''target'', JStr ''Spanish'')])
     = [LogRefining ''gemini'', DetectFetch \<lparr>q = ''hola'', langpair = ''en|en''\<rparr>,
        TranslateFetch \<lparr>q = ''hola'', langpair = ''en|es''\<rparr>] \<and>
   translate_handler keyless_env undetected_providers [(''target'', JStr ''Spanish'')] = ([], bad_request) \<and>
   fst (translate_handler keyless_env undetected_providers
          [(''text'', JObj [(''toString'', JNum ''1'')]), (''target'', JStr ''Spanish'')]) = [] \<and>
   status (snd (translate_handler keyless_env undetected_providers
          [(''text'', JObj [(''toString'', JNum ''1'')]), (''target'', JStr ''Spanish'')])) = 500 \<and>
   fst (translate_handler keyless_env null_body_providers [(''text'', JStr ''hola''), (''target'', JStr ''Spanish'')])
     = [LogRefining ''gemini'', DetectFetch \<lparr>q = ''hola'', langpair = ''en|en''\<rparr>] \<and>
   status (snd (translate_handler keyless_env null_body_providers
          [(''text'', JStr ''hola''), (''target'', JStr ''Spanish'')])) = 500 \<and>
   fst (translate_handler keyless_env numeric_details_providers [(''text'', JStr ''hola''), (''target'', JStr ''Spanish'')])
     = [LogRefining ''gemini'', DetectFetch \<lparr>q = ''hola'', langpair = ''en|en''\<rparr>] \<and>
   status (snd (translate_handler keyless_env numeric_details_providers
          [(''text'', JStr ''hola''), (''target'', JStr ''Spanish'')])) = 500"
  by (simp add: translate_handler_def translate_try_def body_field_def refine_step_def refineRequested_def
          refineOriginalText_def refineWithGemini_def GOOGLE_GEMINI_KEY_def AI_PROVIDER_def keyless_env_def
          resolve_and_translate_def resolve_language_def languages_get_def languages_def
          source_language_def detect_source_def detected_language_def translate_call_def
          undetected_providers_def null_body_providers_def numeric_details_providers_def
          json_response_def translation_of_def js_or_def server_error_def bad_request_def
          object_prototype_members_def TypeError_def)

text \<open>
  The language table. Its eight names resolve to their codes, and a name that is neither in
  the table nor a member of \<^verbatim>\<open>Object.prototype\<close> passes through. A name that is a member
  of \<^verbatim>\<open>Object.prototype\<close> resolves to that member.
\<close>

lemma table_code_nonempty:
  assumes "map_of languages name = Some code"
  shows "code \<noteq> []"
proof -
  from assms have "(name, code) \<in> set languages" by (rule map_of_SomeD)
  then show ?thesis by (auto simp: languages_def)
qed

lemma table_name_resolves:
  "map_of languages name = Some code \<Longrightarrow> resolve_language (JStr name) = Inr (Val (JStr code))"
  by (simp add: resolve_language_def languages_get_def table_code_nonempty)

lemma table_codes:
  "map (\<lambda>name. resolve_language (JStr name))
     [''Spanish'', ''French'', ''Mandarin'', ''German'', ''Portuguese'', ''Italian'', ''Japanese'', ''English'']
   = map (\<lambda>code. Inr (Val (JStr code))) [''es'', ''fr'', ''zh-CN'', ''de'', ''pt'', ''it'', ''ja'', ''en'']"
  by (simp add: resolve_language_def languages_get_def languages_def)

lemma other_name_passes:
  "map_of languages name = None \<Longrightarrow> name \<notin> set object_prototype_members \<Longrightarrow>
     resolve_language (JStr name) = Inr (Val (JStr name))"
  by (simp add: resolve_language_def languages_get_def)

lemma inherited_name_resolves:
  assumes "name \<in> set object_prototype_members"
  shows "resolve_language (JStr name) = Inr (Inherited name)"
proof -
  have "\<forall>n \<in> set object_prototype_members. map_of languages n = None"
    by (simp add: object_prototype_members_def languages_def)
  with assms have "map_of languages name = None" by blast
  with assms show ?thesis by (simp add: resolve_language_def languages_get_def)
qed

text \<open>
  Claim C5 says that every name outside the table comes back unchanged. The name
  \<^verbatim>\<open>constructor\<close> is outside the table, yet \<^verbatim>\<open>languages["constructor"]\<close> finds the
  inherited function \<^verbatim>\<open>Object\<close>, which is truthy, so \<^verbatim>\<open>|| target\<close> never applies: the
  request below sends the function's source text as the target of the language pair.
\<close>

theorem inherited_name_not_passed_through:
  "map_of languages ''constructor'' = None \<and>
   resolve_language (JStr ''constructor'') = Inr (Inherited ''constructor'') \<and>
   fst (translate_handler demo_env demo_providers
      [(''text'', JStr ''hola''), (''target'', JStr ''constructor''), (''source'', JStr ''Spanish''), (''refine'', JBool False)])
     = [TranslateFetch \<lparr>q = ''hola'', langpair = ''es|function Object() { [native code] }''\<rparr>]"
  by (simp add: translate_handler_def translate_try_def body_field_def refine_step_def refineRequested_def
          resolve_and_translate_def resolve_language_def languages_get_def languages_def
          source_language_def translate_call_def AI_PROVIDER_def demo_env_def
          demo_providers_def json_response_def translation_of_def js_or_def
          object_prototype_members_def)

end
